theory Spec2Isabelle
  imports
    Complex_Main
    "HOL-Library.Log_Nat"
begin

section \<open>Spend Wise Buddy: the tracker of \<open>tracker_app_final.py\<close>\<close>

text \<open>
  The program keeps six SQLite tables and talks to its user through \<open>input()\<close> and
  \<open>print()\<close>. The embedding makes both explicit:
  \<^item> the database is a record of row lists, each list in rowid order;
  \<^item> standard input is the list of lines still to be typed; \<open>input()\<close> takes the head, and
    on an empty list it raises \<open>EOFError\<close>, as Python does at end of file;
  \<^item> every function returns what it printed last (an \<open>outcome\<close>) or the exception that
    escaped it, together with the new world;
  \<^item> amounts are Python floats in the source and real numbers here; comparisons and
    single sums are taken exactly, and where a claim depends on how a sum is rounded the
    function is given with the rounding of binary64 addition (\<open>round_double\<close>);
    \<open>float(text)\<close> is a parameter \<open>pf\<close> of every function that calls it
    (\<open>None\<close> stands for \<open>ValueError\<close>);
  \<^item> strings are lists of characters with the code points 0 to 255.
\<close>

subsection \<open>Strings: \<open>str.strip\<close>, \<open>str.lower\<close>, SQL \<open>TRIM\<close> and \<open>LOWER\<close>\<close>

definition py_space :: "char \<Rightarrow> bool" where
  "py_space c \<longleftrightarrow>
     c \<in> set [CHR 0x09, CHR 0x0A, CHR 0x0B, CHR 0x0C, CHR 0x0D,
              CHR 0x1C, CHR 0x1D, CHR 0x1E, CHR 0x1F, CHR 0x20, CHR 0x85, CHR 0xA0]"

definition py_strip :: "string \<Rightarrow> string" where
  "py_strip s = rev (dropWhile py_space (rev (dropWhile py_space s)))"

definition lower_char :: "char \<Rightarrow> char" where
  "lower_char c =
     (case map_of (zip ''ABCDEFGHIJKLMNOPQRSTUVWXYZ'' ''abcdefghijklmnopqrstuvwxyz'') c of
        Some l \<Rightarrow> l
      | None \<Rightarrow> c)"

text \<open>
  \<open>str.lower\<close> folds the ASCII letters and the capital letters \<open>0xC0\<close> to \<open>0xDE\<close>
  (all but the multiplication sign \<open>0xD7\<close>), each to the character 32 places on.
\<close>

definition latin_upper :: "char list" where
  "latin_upper =
        [CHR 0xC0, CHR 0xC1, CHR 0xC2, CHR 0xC3, CHR 0xC4, CHR 0xC5, CHR 0xC6, CHR 0xC7,
         CHR 0xC8, CHR 0xC9, CHR 0xCA, CHR 0xCB, CHR 0xCC, CHR 0xCD, CHR 0xCE, CHR 0xCF,
         CHR 0xD0, CHR 0xD1, CHR 0xD2, CHR 0xD3, CHR 0xD4, CHR 0xD5, CHR 0xD6, CHR 0xD8,
         CHR 0xD9, CHR 0xDA, CHR 0xDB, CHR 0xDC, CHR 0xDD, CHR 0xDE]"

definition latin_lower :: "char list" where
  "latin_lower =
        [CHR 0xE0, CHR 0xE1, CHR 0xE2, CHR 0xE3, CHR 0xE4, CHR 0xE5, CHR 0xE6, CHR 0xE7,
         CHR 0xE8, CHR 0xE9, CHR 0xEA, CHR 0xEB, CHR 0xEC, CHR 0xED, CHR 0xEE, CHR 0xEF,
         CHR 0xF0, CHR 0xF1, CHR 0xF2, CHR 0xF3, CHR 0xF4, CHR 0xF5, CHR 0xF6, CHR 0xF8,
         CHR 0xF9, CHR 0xFA, CHR 0xFB, CHR 0xFC, CHR 0xFD, CHR 0xFE]"

definition py_lower_char :: "char \<Rightarrow> char" where
  "py_lower_char c =
     (case map_of (zip latin_upper latin_lower) c of
        Some l \<Rightarrow> l
      | None \<Rightarrow> lower_char c)"

definition py_lower :: "string \<Rightarrow> string" where
  "py_lower s = map py_lower_char s"

text \<open>SQLite's \<open>LOWER\<close> folds ASCII letters only; its one-argument \<open>TRIM\<close> removes spaces only.\<close>

definition sql_lower :: "string \<Rightarrow> string" where
  "sql_lower s = map lower_char s"

definition sql_trim :: "string \<Rightarrow> string" where
  "sql_trim s =
     rev (dropWhile (\<lambda>c. c = CHR '' '') (rev (dropWhile (\<lambda>c. c = CHR '' '') s)))"

definition is_digit :: "char \<Rightarrow> bool" where
  "is_digit c \<longleftrightarrow> c \<in> set ''0123456789''"

definition digit_val :: "char \<Rightarrow> nat" where
  "digit_val c =
     (case map_of (zip ''0123456789'' [0, 1, 2, 3, 4, 5, 6, 7, 8, 9]) c of
        Some n \<Rightarrow> n
      | None \<Rightarrow> 0)"

definition nonzero_digit :: "char \<Rightarrow> bool" where
  "nonzero_digit c \<longleftrightarrow> c \<in> set ''123456789''"

text \<open>
  \<open>str.isdigit\<close> also holds of the superscript digits \<open>0xB2\<close>, \<open>0xB3\<close> and \<open>0xB9\<close>.
  \<open>int(text)\<close> and SQLite's reading of a text as a number take the ASCII digits only:
  \<open>decimal\<close> says that a text consists of them, \<open>int_of_digits\<close> is its value.
\<close>

definition isdigit :: "string \<Rightarrow> bool" where
  "isdigit s \<longleftrightarrow>
     s \<noteq> [] \<and> list_all (\<lambda>c. is_digit c \<or> c \<in> set [CHR 0xB2, CHR 0xB3, CHR 0xB9]) s"

definition decimal :: "string \<Rightarrow> bool" where
  "decimal s \<longleftrightarrow> s \<noteq> [] \<and> list_all is_digit s"

definition int_of_digits :: "string \<Rightarrow> nat" where
  "int_of_digits s = foldl (\<lambda>n c. 10 * n + digit_val c) 0 s"

subsection \<open>Calendar dates\<close>

definition leap_year :: "nat \<Rightarrow> bool" where
  "leap_year y \<longleftrightarrow> (y mod 4 = 0 \<and> y mod 100 \<noteq> 0) \<or> y mod 400 = 0"

definition days_in_month :: "nat \<Rightarrow> nat \<Rightarrow> nat" where
  "days_in_month y m =
     (if m = 2 then (if leap_year y then 29 else 28)
      else if m \<in> set [4, 6, 9, 11] then 30
      else 31)"

text \<open>
  \<open>datetime.strptime(text, "%Y-%m-%d")\<close>. CPython turns the format into the regular
  expression
  \<^verbatim>\<open>(?P<Y>\d\d\d\d)-(?P<m>1[0-2]|0[1-9]|[1-9])-(?P<d>3[0-1]|[1-2]\d|0[1-9]|[1-9]| [1-9])\<close>,
  matches it at the start of the text, raises \<open>ValueError\<close> when there is no match or when
  text remains after the match, and then builds the date, which raises \<open>ValueError\<close> for
  year 0 and for a day the month does not have. \<open>match_m\<close> and \<open>match_d\<close> follow the
  order of the alternatives; \<open>None\<close> is \<open>ValueError\<close>.
\<close>

fun match_m :: "string \<Rightarrow> (nat \<times> string) option" where
  "match_m (a # b # c # r) =
     (if a = CHR ''1'' \<and> b \<in> set ''012'' \<and> c = CHR ''-''
        then Some (10 + digit_val b, r)
      else if a = CHR ''0'' \<and> nonzero_digit b \<and> c = CHR ''-''
        then Some (digit_val b, r)
      else if nonzero_digit a \<and> b = CHR ''-''
        then Some (digit_val a, c # r)
      else None)"
| "match_m [a, b] =
     (if nonzero_digit a \<and> b = CHR ''-'' then Some (digit_val a, []) else None)"
| "match_m _ = None"

fun match_d :: "string \<Rightarrow> nat option" where
  "match_d [a, b] =
     (if a = CHR ''3'' \<and> b \<in> set ''01'' then Some (30 + digit_val b)
      else if a \<in> set ''12'' \<and> is_digit b then Some (10 * digit_val a + digit_val b)
      else if a = CHR ''0'' \<and> nonzero_digit b then Some (digit_val b)
      else if a = CHR '' '' \<and> nonzero_digit b then Some (digit_val b)
      else None)"
| "match_d [a] = (if nonzero_digit a then Some (digit_val a) else None)"
| "match_d _ = None"

definition strptime :: "string \<Rightarrow> (nat \<times> nat \<times> nat) option" where
  "strptime s =
     (case s of
        y1 # y2 # y3 # y4 # h # r \<Rightarrow>
          if list_all is_digit [y1, y2, y3, y4] \<and> h = CHR ''-'' then
            (case match_m r of
               None \<Rightarrow> None
             | Some (m, r') \<Rightarrow>
                 (case match_d r' of
                    None \<Rightarrow> None
                  | Some d \<Rightarrow>
                      let y = int_of_digits [y1, y2, y3, y4]
                      in if 1 \<le> y \<and> d \<le> days_in_month y m then Some (y, m, d) else None))
          else None
      | _ \<Rightarrow> None)"

definition validate_date :: "string \<Rightarrow> bool" where
  "validate_date date_text = (case strptime date_text of Some _ \<Rightarrow> True | None \<Rightarrow> False)"


text \<open>
  The canonical format in the words of the specification: a 4-digit year, a 2-digit month
  and a 2-digit day, separated by hyphens, that denote a real calendar date.
\<close>

definition canonical_date :: "string \<Rightarrow> bool" where
  "canonical_date s =
     (case s of
        [y1, y2, y3, y4, h1, m1, m2, h2, d1, d2] \<Rightarrow>
          list_all is_digit [y1, y2, y3, y4, m1, m2, d1, d2] \<and> h1 = CHR ''-'' \<and> h2 = CHR ''-''
          \<and> 1 \<le> int_of_digits [m1, m2] \<and> int_of_digits [m1, m2] \<le> 12
          \<and> 1 \<le> int_of_digits [d1, d2]
          \<and> int_of_digits [d1, d2]
              \<le> days_in_month (int_of_digits [y1, y2, y3, y4]) (int_of_digits [m1, m2])
      | _ \<Rightarrow> False)"

subsection \<open>SQLite's \<open>strftime\<close> on stored text, Python's on the clock\<close>

definition digit_char :: "nat \<Rightarrow> char" where
  "digit_char n = ''0123456789'' ! (n mod 10)"

definition two_digits :: "nat \<Rightarrow> string" where
  "two_digits n = [digit_char (n div 10), digit_char n]"

definition four_digits :: "nat \<Rightarrow> string" where
  "four_digits n =
     [digit_char (n div 1000), digit_char (n div 100), digit_char (n div 10), digit_char n]"

text \<open>
  SQLite reads a date with the pattern \<open>YYYY-MM-DD\<close>: exactly four, two and two digits,
  the month in 1..12 and the day in 1..31. Any other text that \<open>validate_date\<close> admits
  is no date for SQLite, and the date functions answer \<open>NULL\<close> (\<open>None\<close>).

  The definition is SQLite's answer on the texts \<open>validate_date\<close> admits, which are all
  this program stores. On other texts it is not: SQLite also reads a date that is
  followed by white space, by \<open>T\<close> or by a time of day, a day number, and \<open>now\<close>, for
  all of which the definition answers \<open>None\<close>; and for a day past the end of its month
  (\<open>2024-02-30\<close>) the versions of SQLite differ: 3.46 moves it into the next month, as
  written here, and 3.40 keeps the month.
\<close>

definition sqlite_date :: "string \<Rightarrow> (nat \<times> nat) option" where
  "sqlite_date s =
     (case s of
        [y1, y2, y3, y4, h1, m1, m2, h2, d1, d2] \<Rightarrow>
          let y = int_of_digits [y1, y2, y3, y4];
              m = int_of_digits [m1, m2];
              d = int_of_digits [d1, d2]
          in if list_all is_digit [y1, y2, y3, y4, m1, m2, d1, d2]
                \<and> h1 = CHR ''-'' \<and> h2 = CHR ''-''
                \<and> 1 \<le> m \<and> m \<le> 12 \<and> 1 \<le> d \<and> d \<le> 31
             then Some (y, if d \<le> days_in_month y m then m else m + 1)
             else None
      | _ \<Rightarrow> None)"

definition sqlite_strftime_Ym :: "string \<Rightarrow> string option" where
  "sqlite_strftime_Ym s =
     (case sqlite_date s of
        None \<Rightarrow> None
      | Some (y, m) \<Rightarrow> Some (four_digits y @ ''-'' @ two_digits m))"

definition sqlite_strftime_Y :: "string \<Rightarrow> string option" where
  "sqlite_strftime_Y s =
     (case sqlite_date s of
        None \<Rightarrow> None
      | Some (y, m) \<Rightarrow> Some (four_digits y))"

text \<open>
  \<open>datetime.now().strftime("%Y-%m")\<close> and \<open>strftime("%Y")\<close>; the clock's date is the
  parameter \<open>now\<close> (year, month, day). The year is written with four digits, as it is for
  every year from 1000 on.
\<close>

definition py_strftime_Ym :: "nat \<times> nat \<times> nat \<Rightarrow> string" where
  "py_strftime_Ym now = (case now of (y, m, d) \<Rightarrow> four_digits y @ ''-'' @ two_digits m)"

definition py_strftime_Y :: "nat \<times> nat \<times> nat \<Rightarrow> string" where
  "py_strftime_Y now = (case now of (y, m, d) \<Rightarrow> four_digits y)"

subsection \<open>The database and the world\<close>

record expense_row =
  exp_id :: nat
  date_of_spending :: string
  type_of_spending :: string
  amount_spent :: real

record income_row =
  inc_id :: nat
  source_of_income :: string
  sum_of_income :: real
  date_of_income :: string

text \<open>
  \<open>budget_calculator\<close> has \<open>name_of_category\<close> as its primary key. Its two foreign-key
  columns are never written and stay \<open>NULL\<close>; they are left out.
\<close>

record budget_row =
  budget_name :: string
  budget_value :: real
  type_of_category :: string

record goal_row =
  goal_ID_No :: nat
  name_of_goal :: string
  commencing_date :: string
  finish_date :: string
  monthly_target_amount :: real
  saved_up_so_far :: real

record category_row =
  name_of_category :: string
  description :: "string option"

text \<open>The \<open>_seq\<close> fields are the \<open>AUTOINCREMENT\<close> counters: the largest id ever given.\<close>

record db =
  users_expenses :: "expense_row list"
  expenses_seq :: nat
  users_incomes :: "income_row list"
  incomes_seq :: nat
  budget_calculator :: "budget_row list"
  saving_goals :: "goal_row list"
  goals_seq :: nat
  income_categories :: "category_row list"
  expense_categories :: "category_row list"

record world =
  store :: db
  stdin :: "string list"

datatype error = EOFError | ValueError | IntegrityError

text \<open>The last message a function prints before it returns.\<close>

datatype outcome =
    BudgetMustBePositive
  | BudgetNotSet
  | BudgetSet
  | CategoryEmpty
  | CategoryExists
  | CategoryAdded
  | CategoryNotAdded
  | ExpenseNotRecorded
  | ExpenseRecorded
  | ExpenseIdNotNumber
  | ExpenseIdInvalid
  | ExpenseChanged
  | ExpenseTypeEmpty
  | ExpensesDeleted
  | DeletionCancelled
  | NoExpensesFound
  | IncomeNotRecorded
  | IncomeRecorded
  | IncomeIdInvalid
  | IncomeIdNotFound
  | IncomeUpdated
  | Summary string real real real
  | EndDateNotAfterStart
  | GoalAssigned
  | GoalNotFound
  | GoalReached
  | ProgressShown
  | SavingsNotNumber
  | SavingsMustBePositive
  | SavingsAdded real

type_synonym 'a io = "world \<Rightarrow> (error + 'a) \<times> world"

text \<open>\<open>input()\<close> at end of input: \<open>EOFError\<close> escapes the function, nothing is left to read.\<close>

definition eof :: "world \<Rightarrow> (error + 'a) \<times> world" where
  "eof w = (Inl EOFError, w\<lparr>stdin := []\<rparr>)"

subsection \<open>Budget and category management\<close>

definition category_table :: "string \<Rightarrow> db \<Rightarrow> category_row list" where
  "category_table category_type d =
     (if category_type = ''income'' then income_categories d else expense_categories d)"

definition existing_category :: "string \<Rightarrow> string \<Rightarrow> db \<Rightarrow> bool" where
  "existing_category category_name category_type d =
     (let n = py_lower (py_strip category_name)
      in find (\<lambda>r. sql_lower (name_of_category r) = n) (category_table category_type d)
           \<noteq> None)"

text \<open>
  \<open>INSERT\<close> into a category table: the name is the primary key, so a row with the very
  same name makes SQLite raise \<open>IntegrityError\<close>.
\<close>

definition insert_category ::
  "string \<Rightarrow> string option \<Rightarrow> category_row list \<Rightarrow> error + category_row list" where
  "insert_category n descr table =
     (if n \<in> set (map name_of_category table) then Inl IntegrityError
      else Inr (table @ [\<lparr>name_of_category = n, description = descr\<rparr>]))"

definition add_category :: "string \<Rightarrow> string \<Rightarrow> db \<Rightarrow> error + db" where
  "add_category category_name category_type d =
     (if category_type = ''income'' then
        (case insert_category category_name None (income_categories d) of
           Inl e \<Rightarrow> Inl e
         | Inr t \<Rightarrow> Inr (d\<lparr>income_categories := t\<rparr>))
      else
        (case insert_category category_name None (expense_categories d) of
           Inl e \<Rightarrow> Inl e
         | Inr t \<Rightarrow> Inr (d\<lparr>expense_categories := t\<rparr>)))"

text \<open>\<open>INSERT OR REPLACE\<close>: the row that holds the key is deleted, the new row is added.\<close>

definition insert_or_replace_budget :: "string \<Rightarrow> real \<Rightarrow> string \<Rightarrow> db \<Rightarrow> db" where
  "insert_or_replace_budget n v t d =
     d\<lparr>budget_calculator :=
         filter (\<lambda>b. budget_name b \<noteq> n) (budget_calculator d)
         @ [\<lparr>budget_name = n, budget_value = v, type_of_category = t\<rparr>]\<rparr>"

definition set_budget_for_category :: "string \<Rightarrow> real \<Rightarrow> string \<Rightarrow> outcome io" where
  "set_budget_for_category category_name budget_val category_type w =
     (let n = py_lower (py_strip category_name);
          t = py_lower (py_strip category_type)
      in if budget_val \<le> 0 then (Inr BudgetMustBePositive, w)
         else if t \<notin> set [''income'', ''expense''] then (Inl ValueError, w)
         else if \<not> existing_category n t (store w) then
           (case stdin w of
              [] \<Rightarrow> eof w
            | add_new # rest \<Rightarrow>
                if py_lower (py_strip add_new) = ''y'' then
                  (case add_category n t (store w) of
                     Inl e \<Rightarrow> (Inl e, w\<lparr>stdin := rest\<rparr>)
                   | Inr d \<Rightarrow>
                       (Inr BudgetSet,
                        \<lparr>store = insert_or_replace_budget n budget_val t d, stdin = rest\<rparr>))
                else (Inr BudgetNotSet, w\<lparr>stdin := rest\<rparr>))
         else (Inr BudgetSet, w\<lparr>store := insert_or_replace_budget n budget_val t (store w)\<rparr>))"

subsection \<open>Expense management\<close>

definition add_expense_category :: "string \<Rightarrow> db \<Rightarrow> (error + outcome) \<times> db" where
  "add_expense_category category_name d =
     (let n = py_lower (py_strip category_name)
      in if n = [] then (Inr CategoryEmpty, d)
         else if find (\<lambda>r. sql_lower (name_of_category r) = n) (expense_categories d) \<noteq> None
           then (Inr CategoryExists, d)
         else
           (case insert_category n None (expense_categories d) of
              Inl e \<Rightarrow> (Inl e, d)
            | Inr t \<Rightarrow> (Inr CategoryAdded, d\<lparr>expense_categories := t\<rparr>)))"

text \<open>The loop that asks for a date until \<open>validate_date\<close> accepts one.\<close>

fun ask_date :: "string list \<Rightarrow> (string \<times> string list) option" where
  "ask_date [] = None"
| "ask_date (l # ls) =
     (if validate_date (py_strip l) then Some (py_strip l, ls) else ask_date ls)"

text \<open>
  The amount loop of \<open>record_new_spending\<close> and \<open>record_an_income\<close>: it asks again after
  text that is no number and after a number that is not above zero.
\<close>

fun ask_amount :: "(string \<Rightarrow> real option) \<Rightarrow> string list \<Rightarrow> (real \<times> string list) option" where
  "ask_amount pf [] = None"
| "ask_amount pf (l # ls) =
     (case pf (py_strip l) of
        None \<Rightarrow> ask_amount pf ls
      | Some a \<Rightarrow> if a \<le> 0 then ask_amount pf ls else Some (a, ls))"

definition insert_expense :: "string \<Rightarrow> string \<Rightarrow> real \<Rightarrow> db \<Rightarrow> db" where
  "insert_expense date ty amount d =
     d\<lparr>users_expenses :=
         users_expenses d
         @ [\<lparr>exp_id = expenses_seq d + 1, date_of_spending = date,
              type_of_spending = ty, amount_spent = amount\<rparr>],
       expenses_seq := expenses_seq d + 1\<rparr>"

text \<open>The second half of \<open>record_new_spending\<close>: ask for the amount, then insert the row.\<close>

definition save_spending ::
  "(string \<Rightarrow> real option) \<Rightarrow> string \<Rightarrow> string \<Rightarrow> outcome io" where
  "save_spending pf date ty w =
     (case ask_amount pf (stdin w) of
        None \<Rightarrow> eof w
      | Some (amount, rest) \<Rightarrow>
          (Inr ExpenseRecorded, \<lparr>store = insert_expense date ty amount (store w), stdin = rest\<rparr>))"

definition record_new_spending :: "(string \<Rightarrow> real option) \<Rightarrow> outcome io" where
  "record_new_spending pf w =
     (case ask_date (stdin w) of
        None \<Rightarrow> eof w
      | Some (date, after_date) \<Rightarrow>
          (case after_date of
             [] \<Rightarrow> eof w
           | l # rest \<Rightarrow>
               let ty = py_lower (py_strip l)
               in if \<not> existing_category ty ''expense'' (store w) then
                    (case rest of
                       [] \<Rightarrow> eof w
                     | add_new # rest' \<Rightarrow>
                         if py_lower (py_strip add_new) = ''y'' then
                           (case add_expense_category ty (store w) of
                              (Inl e, d) \<Rightarrow> (Inl e, \<lparr>store = d, stdin = rest'\<rparr>)
                            | (Inr _, d) \<Rightarrow>
                                if \<not> existing_category ty ''expense'' d
                                  then (Inr CategoryNotAdded, \<lparr>store = d, stdin = rest'\<rparr>)
                                else save_spending pf date ty \<lparr>store = d, stdin = rest'\<rparr>)
                         else (Inr ExpenseNotRecorded, w\<lparr>stdin := rest'\<rparr>))
                  else save_spending pf date ty (w\<lparr>stdin := rest\<rparr>)))"

text \<open>
  The amount loop of \<open>update_my_spending\<close>: it asks again after text that is no number,
  and takes any number.
\<close>

fun ask_number :: "(string \<Rightarrow> real option) \<Rightarrow> string list \<Rightarrow> (real \<times> string list) option" where
  "ask_number pf [] = None"
| "ask_number pf (l # ls) =
     (case pf (py_strip l) of
        None \<Rightarrow> ask_number pf ls
      | Some a \<Rightarrow> Some (a, ls))"

text \<open>
  \<open>WHERE id = ?\<close> with a text for the parameter: SQLite turns the text into a number
  when it is one, and no integer equals a text that is none.
\<close>

definition sql_id_is :: "string \<Rightarrow> nat \<Rightarrow> bool" where
  "sql_id_is t i \<longleftrightarrow> decimal t \<and> i = int_of_digits t"

definition update_my_spending :: "(string \<Rightarrow> real option) \<Rightarrow> outcome io" where
  "update_my_spending pf w =
     (case stdin w of
        [] \<Rightarrow> eof w
      | l # rest \<Rightarrow>
          let expense_ID_No = py_strip l
          in if \<not> isdigit expense_ID_No then (Inr ExpenseIdNotNumber, w\<lparr>stdin := rest\<rparr>)
             else
               (case find (\<lambda>r. sql_id_is expense_ID_No (exp_id r))
                       (users_expenses (store w)) of
                  None \<Rightarrow> (Inr ExpenseIdInvalid, w\<lparr>stdin := rest\<rparr>)
                | Some _ \<Rightarrow>
                    (case ask_number pf rest of
                       None \<Rightarrow> eof w
                     | Some (new_spending_amount, rest') \<Rightarrow>
                         (Inr ExpenseChanged,
                          \<lparr>store = (store w)
                             \<lparr>users_expenses :=
                                map (\<lambda>r. if sql_id_is expense_ID_No (exp_id r)
                                         then r\<lparr>amount_spent := new_spending_amount\<rparr>
                                         else r)
                                  (users_expenses (store w))\<rparr>,
                           stdin = rest'\<rparr>))))"

definition spending_type_is :: "string \<Rightarrow> expense_row \<Rightarrow> bool" where
  "spending_type_is c r \<longleftrightarrow> sql_lower (sql_trim (type_of_spending r)) = c"

definition delete_spending_type :: "outcome io" where
  "delete_spending_type w =
     (case stdin w of
        [] \<Rightarrow> eof w
      | l # rest \<Rightarrow>
          let category_to_delete = py_lower (py_strip l)
          in if category_to_delete = [] then (Inr ExpenseTypeEmpty, w\<lparr>stdin := rest\<rparr>)
             else if filter (spending_type_is category_to_delete) (users_expenses (store w))
                       \<noteq> [] then
               (case rest of
                  [] \<Rightarrow> eof w
                | confirm # rest' \<Rightarrow>
                    if py_lower (py_strip confirm) = ''y'' then
                      (Inr ExpensesDeleted,
                       \<lparr>store = (store w)
                          \<lparr>users_expenses :=
                             filter (\<lambda>r. \<not> spending_type_is category_to_delete r)
                               (users_expenses (store w))\<rparr>,
                        stdin = rest'\<rparr>)
                    else (Inr DeletionCancelled, w\<lparr>stdin := rest'\<rparr>))
             else (Inr NoExpensesFound, w\<lparr>stdin := rest\<rparr>))"

subsection \<open>Income management\<close>

definition add_income_category :: "string option \<Rightarrow> outcome io" where
  "add_income_category category_name w =
     (case (case category_name of
              None \<Rightarrow> (case stdin w of [] \<Rightarrow> None | l # ls \<Rightarrow> Some (py_strip l, ls))
            | Some given \<Rightarrow>
                if given = [] then
                  (case stdin w of [] \<Rightarrow> None | l # ls \<Rightarrow> Some (py_strip l, ls))
                else Some (given, stdin w)) of
        None \<Rightarrow> eof w
      | Some (name, rest) \<Rightarrow>
          let n = py_lower (py_strip name)
          in if n = [] then (Inr CategoryEmpty, w\<lparr>stdin := rest\<rparr>)
             else
               (case rest of
                  [] \<Rightarrow> eof w
                | l # rest' \<Rightarrow>
                    if find (\<lambda>r. sql_lower (name_of_category r) = n)
                         (income_categories (store w)) \<noteq> None
                      then (Inr CategoryExists, w\<lparr>stdin := rest'\<rparr>)
                    else
                      (case insert_category n (Some (py_strip l))
                              (income_categories (store w)) of
                         Inl e \<Rightarrow> (Inl e, w\<lparr>stdin := rest'\<rparr>)
                       | Inr t \<Rightarrow>
                           (Inr CategoryAdded,
                            \<lparr>store = (store w)\<lparr>income_categories := t\<rparr>, stdin = rest'\<rparr>))))"

definition insert_income :: "string \<Rightarrow> real \<Rightarrow> string \<Rightarrow> db \<Rightarrow> db" where
  "insert_income source amount date d =
     d\<lparr>users_incomes :=
         users_incomes d
         @ [\<lparr>inc_id = incomes_seq d + 1, source_of_income = source,
              sum_of_income = amount, date_of_income = date\<rparr>],
       incomes_seq := incomes_seq d + 1\<rparr>"

text \<open>The second half of \<open>record_an_income\<close>: ask for the amount, then insert the row.\<close>

definition save_income ::
  "(string \<Rightarrow> real option) \<Rightarrow> string \<Rightarrow> string \<Rightarrow> outcome io" where
  "save_income pf date source w =
     (case ask_amount pf (stdin w) of
        None \<Rightarrow> eof w
      | Some (amount, rest) \<Rightarrow>
          (Inr IncomeRecorded, \<lparr>store = insert_income source amount date (store w), stdin = rest\<rparr>))"

definition record_an_income :: "(string \<Rightarrow> real option) \<Rightarrow> outcome io" where
  "record_an_income pf w =
     (case ask_date (stdin w) of
        None \<Rightarrow> eof w
      | Some (date, after_date) \<Rightarrow>
          (case after_date of
             [] \<Rightarrow> eof w
           | l # rest \<Rightarrow>
               let source = py_lower (py_strip l)
               in if \<not> existing_category source ''income'' (store w) then
                    (case rest of
                       [] \<Rightarrow> eof w
                     | add_new # rest' \<Rightarrow>
                         if py_lower (py_strip add_new) = ''y'' then
                           (case add_income_category (Some source) (w\<lparr>stdin := rest'\<rparr>) of
                              (Inl e, w') \<Rightarrow> (Inl e, w')
                            | (Inr _, w') \<Rightarrow> save_income pf date source w')
                         else (Inr IncomeNotRecorded, w\<lparr>stdin := rest'\<rparr>))
                  else save_income pf date source (w\<lparr>stdin := rest\<rparr>)))"

text \<open>
  The amount loop of \<open>update_my_income\<close>: \<open>float\<close> gets the line as typed, and a number
  that is not above zero is asked for again. In the function, \<open>int\<close> of an id that
  \<open>isdigit\<close> accepts and that is no decimal numeral raises \<open>ValueError\<close>.
\<close>

fun ask_income_amount ::
  "(string \<Rightarrow> real option) \<Rightarrow> string list \<Rightarrow> (real \<times> string list) option" where
  "ask_income_amount pf [] = None"
| "ask_income_amount pf (l # ls) =
     (case pf l of
        None \<Rightarrow> ask_income_amount pf ls
      | Some a \<Rightarrow> if a \<le> 0 then ask_income_amount pf ls else Some (a, ls))"

definition update_my_income :: "(string \<Rightarrow> real option) \<Rightarrow> outcome io" where
  "update_my_income pf w =
     (case stdin w of
        [] \<Rightarrow> eof w
      | l # rest \<Rightarrow>
          let income_ID_str = py_strip l
          in if \<not> isdigit income_ID_str then (Inr IncomeIdInvalid, w\<lparr>stdin := rest\<rparr>)
             else if \<not> decimal income_ID_str then (Inl ValueError, w\<lparr>stdin := rest\<rparr>)
             else if int_of_digits income_ID_str \<le> 0
               then (Inr IncomeIdInvalid, w\<lparr>stdin := rest\<rparr>)
             else
               (case find (\<lambda>r. inc_id r = int_of_digits income_ID_str)
                       (users_incomes (store w)) of
                  None \<Rightarrow> (Inr IncomeIdNotFound, w\<lparr>stdin := rest\<rparr>)
                | Some _ \<Rightarrow>
                    (case ask_income_amount pf rest of
                       None \<Rightarrow> eof w
                     | Some (new_income_amount, rest') \<Rightarrow>
                         (Inr IncomeUpdated,
                          \<lparr>store = (store w)
                             \<lparr>users_incomes :=
                                map (\<lambda>r. if inc_id r = int_of_digits income_ID_str
                                         then r\<lparr>sum_of_income := new_income_amount\<rparr>
                                         else r)
                                  (users_incomes (store w))\<rparr>,
                           stdin = rest'\<rparr>))))"

subsection \<open>Reports\<close>

text \<open>
  SQL \<open>SUM\<close> is \<open>NULL\<close> over no rows; the source writes \<open>cursor.fetchone()[0] or 0\<close>,
  which turns \<open>NULL\<close> (and a sum of zero) into 0.
\<close>

definition sql_sum :: "real list \<Rightarrow> real option" where
  "sql_sum xs = (case xs of [] \<Rightarrow> None | _ \<Rightarrow> Some (sum_list xs))"

definition or_zero :: "real option \<Rightarrow> real" where
  "or_zero v = (case v of None \<Rightarrow> 0 | Some x \<Rightarrow> if x = 0 then 0 else x)"

fun ask_timeframe :: "string list \<Rightarrow> (string \<times> string list) option" where
  "ask_timeframe [] = None"
| "ask_timeframe (l # ls) =
     (if py_lower (py_strip l) \<in> set [''monthly'', ''annually'']
        then Some (py_lower (py_strip l), ls)
      else ask_timeframe ls)"

definition income_expenses_summary :: "nat \<times> nat \<times> nat \<Rightarrow> outcome io" where
  "income_expenses_summary now w =
     (case ask_timeframe (stdin w) of
        None \<Rightarrow> eof w
      | Some (timeframe, rest) \<Rightarrow>
          let formatted_date =
                (if timeframe = ''monthly'' then py_strftime_Ym now else py_strftime_Y now);
              bucket =
                (if timeframe = ''monthly'' then sqlite_strftime_Ym else sqlite_strftime_Y);
              total_amount_of_expenses =
                or_zero (sql_sum (map amount_spent
                  (filter (\<lambda>r. bucket (date_of_spending r) = Some formatted_date)
                     (users_expenses (store w)))));
              total_amount_of_income =
                or_zero (sql_sum (map sum_of_income
                  (filter (\<lambda>r. bucket (date_of_income r) = Some formatted_date)
                     (users_incomes (store w)))))
          in (Inr (Summary timeframe total_amount_of_income total_amount_of_expenses
                     (total_amount_of_income - total_amount_of_expenses)),
              w\<lparr>stdin := rest\<rparr>))"

text \<open>
  \<open>SELECT key, SUM(value) ... GROUP BY key\<close>: one result row for each key that occurs,
  with the sum of the values of the rows that have the key. The query has no
  \<open>ORDER BY\<close>, so nothing in the source fixes the order of the result rows; the result
  is the set of them.
\<close>

definition sql_group_by_sum ::
  "('r \<Rightarrow> 'k) \<Rightarrow> ('r \<Rightarrow> real) \<Rightarrow> 'r list \<Rightarrow> ('k \<times> real) set" where
  "sql_group_by_sum key val rows =
     (\<lambda>k. (k, sum_list (map val (filter (\<lambda>r. key r = k) rows)))) ` set (map key rows)"

text \<open>The lines \<open>trends_for_tracking_spending\<close> prints: a month (or \<open>None\<close>) and its total.\<close>

definition trends_for_tracking_spending :: "db \<Rightarrow> (string option \<times> real) set" where
  "trends_for_tracking_spending d =
     sql_group_by_sum (\<lambda>r. sqlite_strftime_Ym (date_of_spending r)) amount_spent
       (users_expenses d)"

subsection \<open>Financial goals\<close>


definition goal_named :: "string \<Rightarrow> goal_row \<Rightarrow> bool" where
  "goal_named n g \<longleftrightarrow> sql_lower (name_of_goal g) = n"

definition browse_goal_progress :: "(string \<Rightarrow> real option) \<Rightarrow> string \<Rightarrow> outcome io" where
  "browse_goal_progress pf goal_name w =
     (let n = py_lower (py_strip goal_name)
      in case find (goal_named n) (saving_goals (store w)) of
           None \<Rightarrow> (Inr GoalNotFound, w)
         | Some result \<Rightarrow>
             let desired_amount = monthly_target_amount result;
                 saved_so_far = saved_up_so_far result;
                 remaining_amount = desired_amount - saved_so_far
             in if remaining_amount > 0 then
                  (case stdin w of
                     [] \<Rightarrow> eof w
                   | add_more # rest \<Rightarrow>
                       if py_lower (py_strip add_more) = ''y'' then
                         (case rest of
                            [] \<Rightarrow> eof w
                          | l # rest' \<Rightarrow>
                              (case pf (py_strip l) of
                                 None \<Rightarrow> (Inr SavingsNotNumber, w\<lparr>stdin := rest'\<rparr>)
                               | Some new_savings \<Rightarrow>
                                   if new_savings \<le> 0
                                     then (Inr SavingsMustBePositive, w\<lparr>stdin := rest'\<rparr>)
                                   else
                                     let updated_savings = saved_so_far + new_savings
                                     in (Inr (SavingsAdded (desired_amount - updated_savings)),
                                         \<lparr>store = (store w)
                                            \<lparr>saving_goals :=
                                               map (\<lambda>g. if goal_named n g
                                                        then g\<lparr>saved_up_so_far := updated_savings\<rparr>
                                                        else g)
                                                 (saving_goals (store w))\<rparr>,
                                          stdin = rest'\<rparr>)))
                       else (Inr ProgressShown, w\<lparr>stdin := rest\<rparr>))
                else (Inr GoalReached, w))"

subsection \<open>Sums of floats\<close>

text \<open>
  A Python float is a binary64 number, and the sum of two of them is the binary64
  number nearest to the exact sum, the one with the even last digit when two are equally
  near. \<open>round_double\<close> is this rounding: with \<open>n\<close> the magnitude in units of
  \<open>2^-1074\<close>, the smallest step of the format, the result keeps the leading 53 bits of
  \<open>n\<close>. Results beyond the largest float (\<open>inf\<close>) are not modelled.
\<close>

definition round_half_even :: "real \<Rightarrow> int" where
  "round_half_even x =
     (let f = \<lfloor>x\<rfloor>
      in if x - of_int f < 1 / 2 then f
         else if 1 / 2 < x - of_int f then f + 1
         else if even f then f
         else f + 1)"

definition round_double :: "real \<Rightarrow> real" where
  "round_double v =
     (let n = \<bar>v\<bar> * 2 ^ 1074;
          u = 2 ^ nat (bitlen \<lfloor>n\<rfloor> - 53)
      in sgn v * (u * of_int (round_half_even (n / u))) / 2 ^ 1074)"

text \<open>
  \<open>browse_goal_progress\<close> once more, with the sum of line 1256 and the difference of
  line 1272 rounded as Python rounds them. The test \<open>remaining_amount > 0\<close> is left on
  the exact difference: the difference of two floats rounds to a number of the same
  sign. Where no sum is rounded, the stores of the two functions agree.
\<close>

definition browse_goal_progress_float ::
  "(string \<Rightarrow> real option) \<Rightarrow> string \<Rightarrow> outcome io" where
  "browse_goal_progress_float pf goal_name w =
     (let n = py_lower (py_strip goal_name)
      in case find (goal_named n) (saving_goals (store w)) of
           None \<Rightarrow> (Inr GoalNotFound, w)
         | Some result \<Rightarrow>
             let desired_amount = monthly_target_amount result;
                 saved_so_far = saved_up_so_far result;
                 remaining_amount = desired_amount - saved_so_far
             in if remaining_amount > 0 then
                  (case stdin w of
                     [] \<Rightarrow> eof w
                   | add_more # rest \<Rightarrow>
                       if py_lower (py_strip add_more) = ''y'' then
                         (case rest of
                            [] \<Rightarrow> eof w
                          | l # rest' \<Rightarrow>
                              (case pf (py_strip l) of
                                 None \<Rightarrow> (Inr SavingsNotNumber, w\<lparr>stdin := rest'\<rparr>)
                               | Some new_savings \<Rightarrow>
                                   if new_savings \<le> 0
                                     then (Inr SavingsMustBePositive, w\<lparr>stdin := rest'\<rparr>)
                                   else
                                     let updated_savings =
                                           round_double (saved_so_far + new_savings)
                                     in (Inr (SavingsAdded
                                                (round_double (desired_amount - updated_savings))),
                                         \<lparr>store = (store w)
                                            \<lparr>saving_goals :=
                                               map (\<lambda>g. if goal_named n g
                                                        then g\<lparr>saved_up_so_far := updated_savings\<rparr>
                                                        else g)
                                                 (saving_goals (store w))\<rparr>,
                                          stdin = rest'\<rparr>)))
                       else (Inr ProgressShown, w\<lparr>stdin := rest\<rparr>))
                else (Inr GoalReached, w))"

subsection \<open>Concrete inputs\<close>

text \<open>
  A reading of \<open>float(text)\<close> on signed whole numbers, enough to run the functions on
  concrete input; the theorems below hold for every reading \<open>pf\<close>.
\<close>

definition float_of_text :: "string \<Rightarrow> real option" where
  "float_of_text s =
     (case s of
        [] \<Rightarrow> None
      | c # r \<Rightarrow>
          if c = CHR ''-'' then (if decimal r then Some (- real (int_of_digits r)) else None)
          else if decimal s then Some (real (int_of_digits s))
          else None)"


definition empty_db :: db where
  "empty_db =
     \<lparr>users_expenses = [], expenses_seq = 0, users_incomes = [], incomes_seq = 0,
      budget_calculator = [], saving_goals = [], goals_seq = 0,
      income_categories = [], expense_categories = []\<rparr>"

definition food_db :: db where
  "food_db =
     empty_db
       \<lparr>income_categories := [\<lparr>name_of_category = ''food'', description = None\<rparr>],
        expense_categories := [\<lparr>name_of_category = ''food'', description = None\<rparr>]\<rparr>"






definition march_db :: db where
  "march_db =
     insert_expense ''2024-04-01'' ''food'' 99
       (insert_expense ''2024-03-15'' ''food'' 30
          (insert_expense ''2024-03-01'' ''food'' 50 food_db))"

text \<open>What the user types to record an expense dated \<open>2024-03-5\<close>.\<close>

definition short_date_typed :: world where
  "short_date_typed = \<lparr>store = food_db, stdin = [''2024-03-5'', ''food'', ''10'']\<rparr>"

text \<open>What the user types to record two expenses in March 2024, of 10 and of 12.\<close>

definition two_march_typed :: world where
  "two_march_typed =
     \<lparr>store = food_db,
      stdin = [''2024-03-5'', ''food'', ''10'', ''2024-03-02'', ''food'', ''12'']\<rparr>"

definition rent_food_db :: db where
  "rent_food_db =
     insert_expense ''2024-03-06'' ''rent'' 7
       (insert_expense ''2024-03-05'' '' Food'' 5 empty_db)"

section \<open>Properties\<close>

lemmas text_defs =
  py_strip_def py_space_def py_lower_def py_lower_char_def latin_upper_def latin_lower_def
  lower_char_def sql_lower_def sql_trim_def is_digit_def digit_val_def nonzero_digit_def
  isdigit_def decimal_def sql_id_is_def int_of_digits_def Let_def

lemmas date_defs =
  validate_date_def strptime_def days_in_month_def leap_year_def
  sqlite_date_def sqlite_strftime_Ym_def sqlite_strftime_Y_def
  py_strftime_Ym_def py_strftime_Y_def digit_char_def two_digits_def four_digits_def

subsection \<open>Helper facts\<close>

lemma lower_char_idem: "lower_char (lower_char c) = lower_char c"
  by (simp add: lower_char_def)

lemma lower_py_lower_char: "lower_char (py_lower_char c) = py_lower_char c"
  by (simp add: py_lower_char_def latin_upper_def latin_lower_def lower_char_idem)
    (simp add: lower_char_def)

lemma sql_lower_py_lower: "sql_lower (py_lower s) = py_lower s"
  by (simp add: sql_lower_def py_lower_def lower_py_lower_char)

text \<open>
  A category that the case-insensitive lookup does not find can be inserted: the primary
  key cannot clash, because the new name is already in lower case.
\<close>

lemma insert_category_fresh:
  assumes "find (\<lambda>r. sql_lower (name_of_category r) = py_lower s) table = None"
  shows "insert_category (py_lower s) descr table
         = Inr (table @ [\<lparr>name_of_category = py_lower s, description = descr\<rparr>])"
proof -
  have "py_lower s \<notin> set (map name_of_category table)"
  proof
    assume "py_lower s \<in> set (map name_of_category table)"
    then obtain r where r: "r \<in> set table" "name_of_category r = py_lower s" by auto
    then have "sql_lower (name_of_category r) = py_lower s" by (simp add: sql_lower_py_lower)
    with r(1) assms show False by (auto simp: find_None_iff)
  qed
  then show ?thesis by (simp add: insert_category_def)
qed



lemma filter_filter_not: "filter P (filter (\<lambda>x. \<not> P x) xs) = []"
  by (induction xs) auto

lemma add_expense_category_absent:
  assumes "py_lower (py_strip name) \<noteq> []" and "\<not> existing_category name ''expense'' d"
  shows "add_expense_category name d
         = (Inr CategoryAdded,
            d\<lparr>expense_categories :=
                expense_categories d
                @ [\<lparr>name_of_category = py_lower (py_strip name), description = None\<rparr>]\<rparr>)"
  using assms
  by (simp add: add_expense_category_def existing_category_def category_table_def Let_def
      insert_category_fresh)

lemma add_expense_category_present:
  assumes "py_lower (py_strip name) \<noteq> []" and "existing_category name ''expense'' d"
  shows "add_expense_category name d = (Inr CategoryExists, d)"
  using assms
  by (auto simp: add_expense_category_def existing_category_def category_table_def Let_def)

lemma add_income_category_absent:
  assumes "py_lower (py_strip name) \<noteq> []" and "\<not> existing_category name ''income'' (store w)"
      and "stdin w = l # rest"
  shows "add_income_category (Some name) w
         = (Inr CategoryAdded,
            \<lparr>store = (store w)\<lparr>income_categories :=
                income_categories (store w)
                @ [\<lparr>name_of_category = py_lower (py_strip name),
                     description = Some (py_strip l)\<rparr>]\<rparr>,
             stdin = rest\<rparr>)"
proof -
  from assms(1) have "name \<noteq> []" by (auto simp: py_lower_def py_strip_def)
  with assms show ?thesis
    by (simp add: add_income_category_def existing_category_def category_table_def Let_def
        insert_category_fresh)
qed

lemma add_income_category_present:
  assumes "py_lower (py_strip name) \<noteq> []" and "existing_category name ''income'' (store w)"
      and "stdin w = l # rest"
  shows "add_income_category (Some name) w = (Inr CategoryExists, w\<lparr>stdin := rest\<rparr>)"
proof -
  from assms(1) have "name \<noteq> []" by (auto simp: py_lower_def py_strip_def)
  with assms show ?thesis
    by (auto simp: add_income_category_def existing_category_def category_table_def Let_def)
qed









text \<open>
  Where the other writers of an amount stand: each of them refuses an amount that is not
  above zero before it writes.
\<close>

lemma ask_amount_positive: "ask_amount pf ls = Some (a, rest) \<Longrightarrow> 0 < a"
  by (induction ls) (auto split: option.splits if_splits)

lemma ask_income_amount_positive: "ask_income_amount pf ls = Some (a, rest) \<Longrightarrow> 0 < a"
  by (induction ls) (auto split: option.splits if_splits)

lemma set_budget_rejects_nonpositive:
  "v \<le> 0 \<Longrightarrow> set_budget_for_category name v t w = (Inr BudgetMustBePositive, w)"
  by (simp add: set_budget_for_category_def Let_def)

lemma save_spending_positive:
  assumes "save_spending pf date ty w = (Inr out, w')"
  shows "\<exists>r. users_expenses (store w') = users_expenses (store w) @ [r] \<and> 0 < amount_spent r"
  using assms
  by (auto simp: save_spending_def insert_expense_def eof_def
      split: option.splits dest: ask_amount_positive)

lemma add_expense_category_expenses:
  "add_expense_category n d = (r, d') \<Longrightarrow> users_expenses d' = users_expenses d"
  by (auto simp: add_expense_category_def Let_def split: sum.splits if_splits)

lemma record_new_spending_positive:
  assumes "record_new_spending pf w = (Inr ExpenseRecorded, w')"
  shows "\<exists>r. users_expenses (store w') = users_expenses (store w) @ [r] \<and> 0 < amount_spent r"
  using assms
  by (auto simp: record_new_spending_def Let_def eof_def
      split: option.splits list.splits if_splits prod.splits sum.splits
      dest!: save_spending_positive add_expense_category_expenses)

lemma save_income_positive:
  assumes "save_income pf date src w = (Inr out, w')"
  shows "\<exists>r. users_incomes (store w') = users_incomes (store w) @ [r] \<and> 0 < sum_of_income r"
  using assms
  by (auto simp: save_income_def insert_income_def eof_def
      split: option.splits dest: ask_amount_positive)

lemma update_my_income_positive:
  assumes "update_my_income pf w = (Inr IncomeUpdated, w')"
  shows "\<exists>i a. 0 < a
           \<and> users_incomes (store w')
             = map (\<lambda>r. if inc_id r = i then r\<lparr>sum_of_income := a\<rparr> else r)
                 (users_incomes (store w))"
proof -
  from assms obtain l rest a rest' where
    run: "ask_income_amount pf rest = Some (a, rest')"
      "users_incomes (store w')
       = map (\<lambda>r. if inc_id r = int_of_digits (py_strip l) then r\<lparr>sum_of_income := a\<rparr> else r)
           (users_incomes (store w))"
    by (auto simp: update_my_income_def Let_def eof_def simp del: map_eq_conv
        split: list.splits if_splits option.splits)
  from ask_income_amount_positive[OF run(1)] run(2) show ?thesis by blast
qed

text \<open>Dates in the canonical form: what \<open>validate_date\<close> and SQLite make of them.\<close>

lemma digit_val_less: "digit_val c < 10"
  by (simp add: digit_val_def)

lemma int_of_digits_2: "int_of_digits [a, b] = 10 * digit_val a + digit_val b"
  by (simp add: int_of_digits_def)

lemma int_of_digits_4:
  "int_of_digits [a, b, c, d]
   = 10 * (10 * (10 * digit_val a + digit_val b) + digit_val c) + digit_val d"
  by (simp add: int_of_digits_def)

lemma digit_char_digit_val: "is_digit c \<Longrightarrow> digit_char (10 * n + digit_val c) = c"
  by (auto simp: is_digit_def digit_char_def digit_val_def)

lemma div_10_digit: "(10 * q + digit_val c) div 10 = q"
  using digit_val_less[of c] by simp

lemma four_digits_of_digits:
  assumes "list_all is_digit [a, b, c, d]"
  shows "four_digits (int_of_digits [a, b, c, d]) = [a, b, c, d]"
proof -
  let ?n = "int_of_digits [a, b, c, d]"
  let ?n1 = "10 * (10 * digit_val a + digit_val b) + digit_val c"
  let ?n2 = "10 * digit_val a + digit_val b"
  have n: "?n = 10 * ?n1 + digit_val d" by (rule int_of_digits_4)
  have d1: "?n div 10 = ?n1"
    unfolding n by (rule div_10_digit)
  have "?n div 100 = (?n div 10) div 10"
    by (simp add: div_mult2_eq[symmetric])
  then have d2: "?n div 100 = ?n2"
    unfolding d1 by (simp only: div_10_digit)
  have "?n div 1000 = (?n div 100) div 10"
    by (simp add: div_mult2_eq[symmetric])
  then have d3: "?n div 1000 = 10 * 0 + digit_val a"
    unfolding d2 by (simp only: div_10_digit mult_zero_right add_0)
  from assms have dg: "is_digit a" "is_digit b" "is_digit c" "is_digit d" by simp_all
  have "digit_char (?n div 1000) = a" unfolding d3 using dg(1) by (rule digit_char_digit_val)
  moreover have "digit_char (?n div 100) = b" unfolding d2 using dg(2) by (rule digit_char_digit_val)
  moreover have "digit_char (?n div 10) = c" unfolding d1 using dg(3) by (rule digit_char_digit_val)
  moreover have "digit_char ?n = d" unfolding n using dg(4) by (rule digit_char_digit_val)
  ultimately show ?thesis by (simp only: four_digits_def)
qed

lemma two_digits_of_digits:
  assumes "list_all is_digit [a, b]"
  shows "two_digits (int_of_digits [a, b]) = [a, b]"
proof -
  let ?n = "int_of_digits [a, b]"
  have n: "?n = 10 * digit_val a + digit_val b" by (rule int_of_digits_2)
  have d1: "?n div 10 = 10 * 0 + digit_val a"
    unfolding n by (simp only: div_10_digit mult_zero_right add_0)
  from assms have dg: "is_digit a" "is_digit b" by simp_all
  have "digit_char (?n div 10) = a" unfolding d1 using dg(1) by (rule digit_char_digit_val)
  moreover have "digit_char ?n = b" unfolding n using dg(2) by (rule digit_char_digit_val)
  ultimately show ?thesis by (simp only: two_digits_def)
qed


lemma days_in_month_le: "days_in_month y m \<le> 31"
  by (simp add: days_in_month_def)

lemma canonical_dateE:
  assumes "canonical_date s"
  obtains y1 y2 y3 y4 m1 m2 d1 d2 where
    "s = [y1, y2, y3, y4, CHR ''-'', m1, m2, CHR ''-'', d1, d2]"
    "list_all is_digit [y1, y2, y3, y4]" "list_all is_digit [m1, m2]"
    "list_all is_digit [d1, d2]"
    "1 \<le> int_of_digits [m1, m2]" "int_of_digits [m1, m2] \<le> 12"
    "1 \<le> int_of_digits [d1, d2]"
    "int_of_digits [d1, d2]
       \<le> days_in_month (int_of_digits [y1, y2, y3, y4]) (int_of_digits [m1, m2])"
proof -
  from assms have len: "length s = 10"
    unfolding canonical_date_def by (simp split: list.splits)
  then obtain y1 y2 y3 y4 h1 m1 m2 h2 d1 d2 where
    s: "s = [y1, y2, y3, y4, h1, m1, m2, h2, d1, d2]"
    by (auto simp: length_Suc_conv numeral_eq_Suc)
  from assms have "list_all is_digit [y1, y2, y3, y4, m1, m2, d1, d2]
      \<and> h1 = CHR ''-'' \<and> h2 = CHR ''-''
      \<and> 1 \<le> int_of_digits [m1, m2] \<and> int_of_digits [m1, m2] \<le> 12
      \<and> 1 \<le> int_of_digits [d1, d2]
      \<and> int_of_digits [d1, d2]
            \<le> days_in_month (int_of_digits [y1, y2, y3, y4]) (int_of_digits [m1, m2])"
    unfolding s canonical_date_def by (simp only: list.case)
  with s show thesis
    by (intro that[of y1 y2 y3 y4 m1 m2 d1 d2]) simp_all
qed


lemma sqlite_strftime_Ym_canonical:
  assumes "canonical_date s"
  shows "sqlite_strftime_Ym s = Some (take 7 s)"
proof -
  from assms obtain y1 y2 y3 y4 m1 m2 d1 d2 where
    s: "s = [y1, y2, y3, y4, CHR ''-'', m1, m2, CHR ''-'', d1, d2]"
    and dg: "list_all is_digit [y1, y2, y3, y4]" "list_all is_digit [m1, m2]"
      "list_all is_digit [d1, d2]"
    and m: "1 \<le> int_of_digits [m1, m2]" "int_of_digits [m1, m2] \<le> 12"
    and d: "1 \<le> int_of_digits [d1, d2]"
      "int_of_digits [d1, d2]
         \<le> days_in_month (int_of_digits [y1, y2, y3, y4]) (int_of_digits [m1, m2])"
    by (rule canonical_dateE)
  from d(2) days_in_month_le[of "int_of_digits [y1, y2, y3, y4]" "int_of_digits [m1, m2]"]
  have d31: "int_of_digits [d1, d2] \<le> 31" by linarith
  have "sqlite_date s = Some (int_of_digits [y1, y2, y3, y4], int_of_digits [m1, m2])"
    using dg m d d31 unfolding s sqlite_date_def by (simp add: Let_def)
  then show ?thesis
    using four_digits_of_digits[OF dg(1)] two_digits_of_digits[OF dg(2)]
    by (simp add: sqlite_strftime_Ym_def s)
qed


lemma digit_not_hyphen: "is_digit c \<Longrightarrow> c \<noteq> CHR ''-''"
  by (auto simp: is_digit_def)

lemma nonzero_digit_iff: "nonzero_digit c \<longleftrightarrow> is_digit c \<and> digit_val c \<noteq> 0"
  by (auto simp: is_digit_def nonzero_digit_def digit_val_def)

lemma digit_is_0: "is_digit c \<Longrightarrow> c = CHR ''0'' \<longleftrightarrow> digit_val c = 0"
  by (auto simp: is_digit_def digit_val_def)

lemma digit_is_1: "is_digit c \<Longrightarrow> c = CHR ''1'' \<longleftrightarrow> digit_val c = 1"
  by (auto simp: is_digit_def digit_val_def)

lemma digit_is_3: "is_digit c \<Longrightarrow> c = CHR ''3'' \<longleftrightarrow> digit_val c = 3"
  by (auto simp: is_digit_def digit_val_def)

lemma digit_in_012: "is_digit c \<Longrightarrow> c \<in> set ''012'' \<longleftrightarrow> digit_val c \<le> 2"
  by (auto simp: is_digit_def digit_val_def)

lemma digit_in_01: "is_digit c \<Longrightarrow> c \<in> set ''01'' \<longleftrightarrow> digit_val c \<le> 1"
  by (auto simp: is_digit_def digit_val_def)

lemma digit_in_12: "is_digit c \<Longrightarrow> c \<in> set ''12'' \<longleftrightarrow> digit_val c = 1 \<or> digit_val c = 2"
  by (auto simp: is_digit_def digit_val_def)


lemma match_m_canonical:
  assumes "is_digit a" "is_digit b"
      and "1 \<le> 10 * digit_val a + digit_val b" "10 * digit_val a + digit_val b \<le> 12"
  shows "match_m (a # b # CHR ''-'' # r) = Some (10 * digit_val a + digit_val b, r)"
proof -
  consider "digit_val a = 0" "digit_val b \<noteq> 0" | "digit_val a = 1" "digit_val b \<le> 2"
    using assms(3,4) by atomize_elim arith
  then show ?thesis
  proof cases
    case 1
    from 1(1) assms(1) have a: "a = CHR ''0''" by (simp add: digit_is_0)
    from 1(2) assms(2) have b: "nonzero_digit b" by (simp add: nonzero_digit_iff)
    from a b 1 show ?thesis by simp
  next
    case 2
    from 2(1) assms(1) have a: "a = CHR ''1''" by (simp add: digit_is_1)
    from 2(2) have b: "b \<in> set ''012''" by (simp only: digit_in_012[OF assms(2)])
    from a b 2 show ?thesis by simp
  qed
qed

lemma match_d_canonical:
  assumes "is_digit a" "is_digit b"
      and "1 \<le> 10 * digit_val a + digit_val b" "10 * digit_val a + digit_val b \<le> 31"
  shows "match_d [a, b] = Some (10 * digit_val a + digit_val b)"
proof -
  consider "digit_val a = 0" "digit_val b \<noteq> 0" | "digit_val a = 1 \<or> digit_val a = 2"
    | "digit_val a = 3" "digit_val b \<le> 1"
    using assms(3,4) by atomize_elim arith
  then show ?thesis
  proof cases
    case 1
    from 1(1) assms(1) have a: "a = CHR ''0''" by (simp add: digit_is_0)
    from 1(2) assms(2) have b: "nonzero_digit b" by (simp add: nonzero_digit_iff)
    from a b 1 show ?thesis by simp
  next
    case 2
    then have a: "a \<in> set ''12''" by (simp only: digit_in_12[OF assms(1)])
    then have "a \<noteq> CHR ''3''" by auto
    with a assms(2) show ?thesis by simp
  next
    case 3
    from 3(1) assms(1) have a: "a = CHR ''3''" by (simp add: digit_is_3)
    from 3(2) have b: "b \<in> set ''01''" by (simp only: digit_in_01[OF assms(2)])
    from a b 3 show ?thesis by simp
  qed
qed

lemma validate_date_canonical:
  assumes "canonical_date s" and "1 \<le> int_of_digits (take 4 s)"
  shows "validate_date s"
proof -
  from assms(1) obtain y1 y2 y3 y4 m1 m2 d1 d2 where
    s: "s = [y1, y2, y3, y4, CHR ''-'', m1, m2, CHR ''-'', d1, d2]"
    and dg: "list_all is_digit [y1, y2, y3, y4]" "list_all is_digit [m1, m2]"
      "list_all is_digit [d1, d2]"
    and m: "1 \<le> int_of_digits [m1, m2]" "int_of_digits [m1, m2] \<le> 12"
    and d: "1 \<le> int_of_digits [d1, d2]"
      "int_of_digits [d1, d2]
         \<le> days_in_month (int_of_digits [y1, y2, y3, y4]) (int_of_digits [m1, m2])"
    by (rule canonical_dateE)
  from d(2) days_in_month_le[of "int_of_digits [y1, y2, y3, y4]" "int_of_digits [m1, m2]"]
  have d31: "int_of_digits [d1, d2] \<le> 31" by linarith
  have mm: "match_m [m1, m2, CHR ''-'', d1, d2] = Some (int_of_digits [m1, m2], [d1, d2])"
    using match_m_canonical[of m1 m2 "[d1, d2]"] dg(2) m by (simp add: int_of_digits_2)
  have md: "match_d [d1, d2] = Some (int_of_digits [d1, d2])"
    using match_d_canonical[of d1 d2] dg(3) d(1) d31 by (simp add: int_of_digits_2)
  from assms(2) have y: "1 \<le> int_of_digits [y1, y2, y3, y4]" by (simp add: s)
  show ?thesis
    using dg(1) mm md y d(2)
    unfolding validate_date_def strptime_def s
    by (simp add: Let_def del: match_m.simps match_d.simps)
qed

lemma or_zero_sql_sum: "or_zero (sql_sum xs) = sum_list xs"
  by (cases xs) (simp_all add: or_zero_def sql_sum_def)

text \<open>
  On a database whose dates all have the canonical form, the monthly summary adds up
  the rows whose first seven characters are the year and month of the clock.
\<close>

lemma monthly_summary_canonical:
  assumes "list_all (\<lambda>r. canonical_date (date_of_spending r)) (users_expenses (store w))"
      and "list_all (\<lambda>r. canonical_date (date_of_income r)) (users_incomes (store w))"
      and "ask_timeframe (stdin w) = Some (''monthly'', rest)"
  shows "income_expenses_summary now w
         = (Inr (Summary ''monthly''
                   (sum_list (map sum_of_income
                      (filter (\<lambda>r. take 7 (date_of_income r) = py_strftime_Ym now)
                         (users_incomes (store w)))))
                   (sum_list (map amount_spent
                      (filter (\<lambda>r. take 7 (date_of_spending r) = py_strftime_Ym now)
                         (users_expenses (store w)))))
                   (sum_list (map sum_of_income
                      (filter (\<lambda>r. take 7 (date_of_income r) = py_strftime_Ym now)
                         (users_incomes (store w))))
                    - sum_list (map amount_spent
                      (filter (\<lambda>r. take 7 (date_of_spending r) = py_strftime_Ym now)
                         (users_expenses (store w)))))),
            w\<lparr>stdin := rest\<rparr>)"
proof -
  have e: "filter (\<lambda>r. sqlite_strftime_Ym (date_of_spending r) = Some (py_strftime_Ym now))
             (users_expenses (store w))
           = filter (\<lambda>r. take 7 (date_of_spending r) = py_strftime_Ym now)
               (users_expenses (store w))"
    using assms(1)
    by (intro filter_cong refl) (auto simp: list_all_iff sqlite_strftime_Ym_canonical)
  have i: "filter (\<lambda>r. sqlite_strftime_Ym (date_of_income r) = Some (py_strftime_Ym now))
             (users_incomes (store w))
           = filter (\<lambda>r. take 7 (date_of_income r) = py_strftime_Ym now)
               (users_incomes (store w))"
    using assms(2)
    by (intro filter_cong refl) (auto simp: list_all_iff sqlite_strftime_Ym_canonical)
  show ?thesis
    using assms(3) by (simp add: income_expenses_summary_def Let_def or_zero_sql_sum e i)
qed

text \<open>
  Scenario A of the specification, with an expense on the first day of the next month:
  expenses of 50 and 30 in March 2024 and 99 on 2024-04-01; the summary for the clock at
  2024-03-10 reports expenses of 80.
\<close>

lemma monthly_summary_march:
  "income_expenses_summary (2024, 3, 10) \<lparr>store = march_db, stdin = [''Monthly'']\<rparr>
   = (Inr (Summary ''monthly'' 0 80 (- 80)), \<lparr>store = march_db, stdin = []\<rparr>)"
  by (simp add: income_expenses_summary_def march_db_def insert_expense_def food_db_def
      empty_db_def sql_sum_def or_zero_def date_defs text_defs)

text \<open>\<open>update_my_spending\<close> writes whatever number the user types.\<close>

lemma update_my_spending_takes_any_number:
  assumes "stdin w = l # t # rest"
      and "isdigit (py_strip l)"
      and "find (\<lambda>r. sql_id_is (py_strip l) (exp_id r)) (users_expenses (store w)) = Some r"
      and "pf (py_strip t) = Some a"
  shows "update_my_spending pf w
         = (Inr ExpenseChanged,
            \<lparr>store = (store w)
               \<lparr>users_expenses :=
                  map (\<lambda>r. if sql_id_is (py_strip l) (exp_id r)
                           then r\<lparr>amount_spent := a\<rparr> else r)
                    (users_expenses (store w))\<rparr>,
             stdin = rest\<rparr>)"
  using assms by (simp add: update_my_spending_def Let_def)




lemma round_double_0 [simp]: "round_double 0 = 0"
  by (simp add: round_double_def)







lemma browse_float_complete:
  assumes "find (goal_named (py_lower (py_strip name))) (saving_goals (store w)) = Some g"
      and "monthly_target_amount g \<le> saved_up_so_far g"
  shows "browse_goal_progress_float pf name w = (Inr GoalReached, w)"
  using assms by (simp add: browse_goal_progress_float_def Let_def)

lemma browse_float_exact:
  assumes "find (goal_named (py_lower (py_strip name))) (saving_goals (store w)) = Some g"
      and "stdin w = yes # l # rest"
      and "pf (py_strip l) = Some a"
      and "round_double (saved_up_so_far g + a) = saved_up_so_far g + a"
  shows "snd (browse_goal_progress_float pf name w) = snd (browse_goal_progress pf name w)"
  using assms
  by (simp add: browse_goal_progress_float_def browse_goal_progress_def Let_def)

text \<open>
  On a database whose expense dates are all canonical, the trend has one line for each
  7-character prefix that occurs, with the sum of the amounts of the rows that start
  with it.
\<close>

lemma trends_canonical:
  assumes "list_all (\<lambda>r. canonical_date (date_of_spending r)) (users_expenses d)"
  shows "trends_for_tracking_spending d
         = (\<lambda>p. (Some p, sum_list (map amount_spent
                    (filter (\<lambda>r. take 7 (date_of_spending r) = p) (users_expenses d)))))
             ` set (map (\<lambda>r. take 7 (date_of_spending r)) (users_expenses d))"
proof -
  have k: "sqlite_strftime_Ym (date_of_spending r) = Some (take 7 (date_of_spending r))"
    if "r \<in> set (users_expenses d)" for r
    using assms that by (simp add: list_all_iff sqlite_strftime_Ym_canonical)
  have f: "filter (\<lambda>r. sqlite_strftime_Ym (date_of_spending r) = Some p) (users_expenses d)
           = filter (\<lambda>r. take 7 (date_of_spending r) = p) (users_expenses d)" for p
    by (intro filter_cong refl) (simp add: k)
  have s: "set (map (\<lambda>r. sqlite_strftime_Ym (date_of_spending r)) (users_expenses d))
           = Some ` set (map (\<lambda>r. take 7 (date_of_spending r)) (users_expenses d))"
    using k by (auto simp: image_iff)
  show ?thesis
    unfolding trends_for_tracking_spending_def sql_group_by_sum_def s
    by (simp add: image_image f)
qed

subsection \<open>C1: amounts that are not above zero\<close>

text \<open>
  C1. Every operation that writes an amount should reject an amount \<open>a \<le> 0\<close> and write
  nothing. \<open>update_my_spending\<close> does not: its loop takes any number. On a database
  that holds expense 1 with amount 20, the user types the id \<open>1\<close> and the new amount
  \<open>-5\<close>; the function reports success and the stored amount is \<open>-5\<close>.
\<close>

theorem update_my_spending_stores_negative_amount:
  "update_my_spending float_of_text
     \<lparr>store = insert_expense ''2024-03-05'' ''food'' 20 empty_db, stdin = [''1'', ''-5'']\<rparr>
   = (Inr ExpenseChanged,
      \<lparr>store = empty_db
         \<lparr>users_expenses :=
            [\<lparr>exp_id = 1, date_of_spending = ''2024-03-05'', type_of_spending = ''food'',
               amount_spent = - 5\<rparr>],
          expenses_seq := 1\<rparr>,
       stdin = []\<rparr>)"
  by (simp add: update_my_spending_def insert_expense_def empty_db_def float_of_text_def
      text_defs)

subsection \<open>C2: the budget of a category is replaced, keyed by its name\<close>



subsection \<open>C3: deleting the expenses of a category\<close>

text \<open>
  C3 as stated fails for the empty category. \<open>delete_spending_type\<close> refuses a category
  that is empty after normalisation before it looks at the table: with no matching row
  it reports that the type cannot be empty, not that nothing was found, and rows stored
  under the empty category stay although the user would confirm.
\<close>

theorem delete_spending_type_empty_counterexample:
  "filter (spending_type_is (py_lower (py_strip ''  ''))) (users_expenses empty_db) = []
   \<and> fst (delete_spending_type \<lparr>store = empty_db, stdin = [''  '']\<rparr>) = Inr ExpenseTypeEmpty
   \<and> fst (delete_spending_type \<lparr>store = empty_db, stdin = [''  '']\<rparr>) \<noteq> Inr NoExpensesFound
   \<and> filter (spending_type_is (py_lower (py_strip '''')))
        (users_expenses (insert_expense ''2024-03-05'' '''' 5 empty_db)) \<noteq> []
   \<and> delete_spending_type
        \<lparr>store = insert_expense ''2024-03-05'' '''' 5 empty_db, stdin = ['''', ''y'']\<rparr>
      = (Inr ExpenseTypeEmpty,
         \<lparr>store = insert_expense ''2024-03-05'' '''' 5 empty_db, stdin = [''y'']\<rparr>)"
  by (simp add: delete_spending_type_def spending_type_is_def insert_expense_def empty_db_def
      text_defs)

text \<open>
  C3, amended. For a category that is not empty after normalisation: when no row matches,
  \<open>delete_spending_type\<close> reports that nothing was found and leaves the database as it
  was; when rows match and the user confirms, no matching row is left, the rows of every
  other category are the same rows in the same order, and no other table changes.
\<close>

theorem delete_spending_type_removes_exactly:
  assumes "stdin w = l # rest"
      and "c = py_lower (py_strip l)"
      and "c \<noteq> []"
  shows "(filter (spending_type_is c) (users_expenses (store w)) = [] \<longrightarrow>
            fst (delete_spending_type w) = Inr NoExpensesFound
            \<and> store (snd (delete_spending_type w)) = store w)
         \<and> (filter (spending_type_is c) (users_expenses (store w)) \<noteq> []
              \<and> rest = confirm # rest' \<and> py_lower (py_strip confirm) = ''y'' \<longrightarrow>
            fst (delete_spending_type w) = Inr ExpensesDeleted
            \<and> filter (spending_type_is c) (users_expenses (store (snd (delete_spending_type w)))) = []
            \<and> filter (\<lambda>r. \<not> spending_type_is c r)
                 (users_expenses (store (snd (delete_spending_type w))))
               = filter (\<lambda>r. \<not> spending_type_is c r) (users_expenses (store w))
            \<and> (store (snd (delete_spending_type w)))
                 \<lparr>users_expenses := users_expenses (store w)\<rparr> = store w)"
  using assms by (auto simp: delete_spending_type_def Let_def filter_filter_not)

theorem delete_spending_type_removes_exactly_witness:
  "fst (delete_spending_type \<lparr>store = rent_food_db, stdin = ['' FOOD '', ''Y'']\<rparr>)
     = Inr ExpensesDeleted
   \<and> map type_of_spending
       (users_expenses
          (store (snd (delete_spending_type
                         \<lparr>store = rent_food_db, stdin = ['' FOOD '', ''Y'']\<rparr>))))
     = [''rent'']
   \<and> fst (delete_spending_type \<lparr>store = rent_food_db, stdin = [''travel'']\<rparr>)
     = Inr NoExpensesFound
   \<and> store (snd (delete_spending_type \<lparr>store = rent_food_db, stdin = [''travel'']\<rparr>))
     = rent_food_db"
proof -
  let ?typed = "\<lparr>store = rent_food_db, stdin = ['' FOOD '', ''Y'']\<rparr>"
  let ?other = "\<lparr>store = rent_food_db, stdin = [''travel'']\<rparr>"
  let ?rent = "\<lparr>exp_id = 2, date_of_spending = ''2024-03-06'', type_of_spending = ''rent'',
                amount_spent = 7\<rparr>"
  have c: "py_lower (py_strip '' FOOD '') = ''food''"
    "py_lower (py_strip ''travel'') = ''travel''" "py_lower (py_strip ''Y'') = ''y''"
    by (simp_all add: text_defs)
  have rows: "filter (spending_type_is ''food'') (users_expenses rent_food_db) \<noteq> []"
    "filter (spending_type_is ''travel'') (users_expenses rent_food_db) = []"
    "filter (\<lambda>r. \<not> spending_type_is ''food'' r) (users_expenses rent_food_db) = [?rent]"
    by (simp_all add: spending_type_is_def rent_food_db_def insert_expense_def empty_db_def
        text_defs)
  have del: "filter (\<lambda>r. \<not> spending_type_is ''food'' r)
               (users_expenses (store (snd (delete_spending_type ?typed))))
             = filter (\<lambda>r. \<not> spending_type_is ''food'' r) (users_expenses rent_food_db)"
    "filter (spending_type_is ''food'')
       (users_expenses (store (snd (delete_spending_type ?typed)))) = []"
    "fst (delete_spending_type ?typed) = Inr ExpensesDeleted"
    using delete_spending_type_removes_exactly
      [of ?typed "'' FOOD ''" "[''Y'']" "''food''" "''Y''" "[]"] c rows(1)
    by simp_all
  have nod: "fst (delete_spending_type ?other) = Inr NoExpensesFound"
    "store (snd (delete_spending_type ?other)) = rent_food_db"
    using delete_spending_type_removes_exactly [of ?other "''travel''" "[]" "''travel''"]
      c rows(2)
    by simp_all
  have split: "xs = filter (\<lambda>r. \<not> spending_type_is ''food'' r) xs"
    if "filter (spending_type_is ''food'') xs = []" for xs
    using that by (induction xs) (auto split: if_splits)
  from split[OF del(2)] del(1) rows(3)
  have "users_expenses (store (snd (delete_spending_type ?typed))) = [?rent]"
    by simp
  with del(3) nod show ?thesis by simp
qed

subsection \<open>C4: contributions to a goal add up\<close>




subsection \<open>C5: \<open>validate_date\<close>\<close>

text \<open>
  C5. \<open>validate_date\<close> should accept a text exactly when it is a real calendar date
  written with a 4-digit year, a 2-digit month and a 2-digit day. It accepts
  \<open>2024-3-5\<close>, whose month and day have one digit each.
\<close>

theorem validate_date_accepts_short_fields:
  "validate_date ''2024-3-5'' \<and> \<not> canonical_date ''2024-3-5''"
  by (simp add: canonical_date_def date_defs text_defs)

subsection \<open>C6: the monthly summary\<close>

text \<open>
  C6. The monthly summary should add up exactly the rows whose date shares the year and
  month of the reference date. \<open>record_new_spending\<close> accepts the date \<open>2024-03-5\<close>
  and stores the expense of 10; the text starts with \<open>2024-03\<close>, the month of the
  reference date 2024-03-10, yet the monthly summary reports expenses of 0.
\<close>

theorem monthly_summary_misses_recorded_expense:
  "fst (record_new_spending float_of_text short_date_typed) = Inr ExpenseRecorded
   \<and> map date_of_spending
       (users_expenses (store (snd (record_new_spending float_of_text short_date_typed))))
     = [''2024-03-5'']
   \<and> map amount_spent
       (users_expenses (store (snd (record_new_spending float_of_text short_date_typed))))
     = [10]
   \<and> take 7 ''2024-03-5'' = py_strftime_Ym (2024, 3, 10)
   \<and> fst (income_expenses_summary (2024, 3, 10)
          ((snd (record_new_spending float_of_text short_date_typed))
             \<lparr>stdin := [''monthly'']\<rparr>))
     = Inr (Summary ''monthly'' 0 0 0)"
  by (simp add: record_new_spending_def save_spending_def income_expenses_summary_def
      existing_category_def category_table_def insert_expense_def short_date_typed_def
      food_db_def empty_db_def float_of_text_def sql_sum_def or_zero_def date_defs text_defs)

subsection \<open>C7: the two category namespaces\<close>

text \<open>
  C7 as stated fails for a name that is empty after normalisation: it is absent from both
  tables, yet neither function adds it; both report that the name cannot be empty.
\<close>

theorem add_category_empty_name_counterexample:
  "\<not> existing_category ''  '' ''expense'' empty_db
   \<and> add_expense_category ''  '' empty_db = (Inr CategoryEmpty, empty_db)
   \<and> \<not> existing_category ''  '' ''income'' empty_db
   \<and> add_income_category (Some ''  '') \<lparr>store = empty_db, stdin = [''pay'']\<rparr>
      = (Inr CategoryEmpty, \<lparr>store = empty_db, stdin = [''pay'']\<rparr>)"
  by (simp add: add_expense_category_def add_income_category_def existing_category_def
      category_table_def empty_db_def text_defs)

text \<open>
  C7, amended. For a name that is not empty after normalisation: adding it as an expense
  category succeeds when the expense table has no row with that lower-cased name, and
  adding it again reports a duplicate; when such a row exists the call reports a
  duplicate and changes nothing. The same holds for the income table, whose function also
  reads a description. Adding to the income table leaves the expense table alone, so a
  name absent from both is added to both.
\<close>

theorem add_category_namespaces:
  assumes "py_lower (py_strip name) \<noteq> []" and "stdin w = l # rest"
  shows "(\<not> existing_category name ''expense'' d \<longrightarrow>
            fst (add_expense_category name d) = Inr CategoryAdded
            \<and> existing_category name ''expense'' (snd (add_expense_category name d))
            \<and> fst (add_expense_category name (snd (add_expense_category name d)))
                = Inr CategoryExists)
         \<and> (existing_category name ''expense'' d \<longrightarrow>
              add_expense_category name d = (Inr CategoryExists, d))
         \<and> (\<not> existing_category name ''income'' (store w) \<longrightarrow>
              fst (add_income_category (Some name) w) = Inr CategoryAdded
              \<and> existing_category name ''income'' (store (snd (add_income_category (Some name) w)))
              \<and> expense_categories (store (snd (add_income_category (Some name) w)))
                  = expense_categories (store w))
         \<and> (existing_category name ''income'' (store w) \<longrightarrow>
              fst (add_income_category (Some name) w) = Inr CategoryExists
              \<and> store (snd (add_income_category (Some name) w)) = store w)
         \<and> (\<not> existing_category name ''income'' (store w)
              \<and> \<not> existing_category name ''expense'' (store w) \<longrightarrow>
              fst (add_income_category (Some name) w) = Inr CategoryAdded
              \<and> fst (add_expense_category name (store (snd (add_income_category (Some name) w))))
                  = Inr CategoryAdded)"
proof -
  have exp_after: "existing_category name ''expense''
        (d\<lparr>expense_categories := expense_categories d
              @ [\<lparr>name_of_category = py_lower (py_strip name), description = None\<rparr>]\<rparr>)"
    for d
    by (simp add: existing_category_def category_table_def find_None_iff)
      (rule exI[of _ "\<lparr>name_of_category = py_lower (py_strip name), description = None\<rparr>"],
       simp add: sql_lower_py_lower)
  have inc_after: "existing_category name ''income''
        (d\<lparr>income_categories := income_categories d
              @ [\<lparr>name_of_category = py_lower (py_strip name), description = x\<rparr>]\<rparr>)"
    for d x
    by (simp add: existing_category_def category_table_def find_None_iff)
      (rule exI[of _ "\<lparr>name_of_category = py_lower (py_strip name), description = x\<rparr>"],
       simp add: sql_lower_py_lower)
  have other: "existing_category name ''expense'' (d\<lparr>income_categories := t\<rparr>)
               = existing_category name ''expense'' d" for d t
    by (simp add: existing_category_def category_table_def)
  show ?thesis
    using assms
    by (auto simp: add_expense_category_absent add_expense_category_present
        add_income_category_absent add_income_category_present exp_after inc_after other)
qed

theorem add_category_namespaces_witness:
  "fst (add_income_category (Some '' Gifts '') \<lparr>store = empty_db, stdin = [''presents'']\<rparr>)
     = Inr CategoryAdded
   \<and> fst (add_expense_category '' Gifts ''
        (store (snd (add_income_category (Some '' Gifts '')
                       \<lparr>store = empty_db, stdin = [''presents'']\<rparr>))))
     = Inr CategoryAdded
   \<and> fst (add_expense_category '' Gifts '' (snd (add_expense_category '' Gifts '' empty_db)))
     = Inr CategoryExists"
proof -
  have n: "py_lower (py_strip '' Gifts '') \<noteq> []"
    by (simp add: text_defs)
  have absent: "\<not> existing_category '' Gifts '' ''expense'' empty_db"
    "\<not> existing_category '' Gifts '' ''income'' empty_db"
    by (simp_all add: existing_category_def category_table_def empty_db_def)
  from add_category_namespaces
         [of "'' Gifts ''" "\<lparr>store = empty_db, stdin = [''presents'']\<rparr>" "''presents''" "[]"
             empty_db]
       n absent
  show ?thesis by simp
qed

subsection \<open>C8: the monthly trend\<close>

text \<open>
  C8. The trend should group the expense rows by their truncated year-month.
  \<open>record_new_spending\<close> accepts the dates \<open>2024-03-5\<close> and \<open>2024-03-02\<close> and stores
  expenses of 10 and of 12; both texts truncate to \<open>2024-03\<close>, yet the trend has a line
  of 12 for \<open>2024-03\<close> and a line of 10 with no month, where one line of 22 is due.
\<close>

theorem trend_splits_one_month:
  "fst (record_new_spending float_of_text two_march_typed) = Inr ExpenseRecorded
   \<and> fst (record_new_spending float_of_text
            (snd (record_new_spending float_of_text two_march_typed)))
     = Inr ExpenseRecorded
   \<and> map date_of_spending (users_expenses (store (snd
        (record_new_spending float_of_text
           (snd (record_new_spending float_of_text two_march_typed))))))
     = [''2024-03-5'', ''2024-03-02'']
   \<and> map (take 7) [''2024-03-5'', ''2024-03-02''] = [''2024-03'', ''2024-03'']
   \<and> map amount_spent (users_expenses (store (snd
        (record_new_spending float_of_text
           (snd (record_new_spending float_of_text two_march_typed))))))
     = [10, 12]
   \<and> trends_for_tracking_spending (store (snd
        (record_new_spending float_of_text
           (snd (record_new_spending float_of_text two_march_typed)))))
     = {(None, 10), (Some ''2024-03'', 12)}"
  by (simp add: record_new_spending_def save_spending_def trends_for_tracking_spending_def
      sql_group_by_sum_def existing_category_def category_table_def insert_expense_def
      two_march_typed_def food_db_def empty_db_def float_of_text_def date_defs text_defs)

subsection \<open>C9: a complete goal takes no further contribution\<close>




subsection \<open>C10: goals that share a name\<close>



end
